theory Spec2Isabelle
  imports Main "HOL-Library.Sublist"
begin

section \<open>Data model (types.ts and the browser objects the code reads)\<close>

text \<open>
  \<^verbatim>\<open>export enum AspectRatio { LANDSCAPE = '16:9', PORTRAIT = '9:16' }\<close>
\<close>

datatype AspectRatio = LANDSCAPE | PORTRAIT

text \<open>
  \<^verbatim>\<open>export interface VideoState { isLoading: boolean; progressMessage: string;
     videoUrl: string | null; error: string | null; }\<close>
  A nullable string is a \<open>string option\<close>, \<open>null\<close> being \<open>None\<close>.
\<close>

record VideoState =
  isLoading :: bool
  progressMessage :: string
  videoUrl :: "string option"
  error :: "string option"

text \<open>
  The browser's \<open>File\<close>: the code reads \<open>file.type\<close> only; the name and the size are kept
  because the upload widget's caption speaks of a size limit.
\<close>

record File =
  file_name :: string
  file_type :: string
  file_size :: nat

text \<open>
  A thrown JavaScript value. The controller inspects nothing but \<open>error?.message\<close>, which is
  \<open>undefined\<close> (here \<open>None\<close>) for a value that has no such property, such as the
  \<open>ProgressEvent\<close> a failing \<open>FileReader\<close> rejects with. \<open>new Error(m)\<close> is
  \<open>Thrown (Some m)\<close>.
\<close>

datatype thrown = Thrown (message: "string option")

abbreviation Error :: "string \<Rightarrow> thrown" where
  "Error m \<equiv> Thrown (Some m)"

section \<open>JavaScript string and truthiness helpers\<close>

text \<open>\<open>s || d\<close> on a string: the empty string is falsy.\<close>

definition or_default :: "string \<Rightarrow> string \<Rightarrow> string" where
  "or_default s d = (if s = [] then d else s)"

text \<open>\<open>x || d\<close> where \<open>x\<close> may be \<open>undefined\<close>: both \<open>undefined\<close> and \<open>""\<close> are falsy.\<close>

definition opt_or_default :: "string option \<Rightarrow> string \<Rightarrow> string" where
  "opt_or_default x d = (case x of None \<Rightarrow> d | Some s \<Rightarrow> or_default s d)"

text \<open>Truthiness of a nullable string, as in \<open>!videoUri\<close> and \<open>videoState.error && ...\<close>.\<close>

definition truthy :: "string option \<Rightarrow> bool" where
  "truthy x = (case x of None \<Rightarrow> False | Some s \<Rightarrow> s \<noteq> [])"

text \<open>\<open>String.prototype.startsWith\<close> is \<^const>\<open>prefix\<close>; \<open>String.prototype.includes\<close>
  (\<open>includes\<close> is a reserved word of Isabelle) is:\<close>

fun str_includes :: "string \<Rightarrow> string \<Rightarrow> bool" where
  "str_includes [] sub = (sub = [])"
| "str_includes (c # cs) sub = (prefix sub (c # cs) \<or> str_includes cs sub)"

text \<open>A value interpolated in a template literal: \<open>undefined\<close> prints as the word.\<close>

definition template :: "string option \<Rightarrow> string" where
  "template x = (case x of None \<Rightarrow> ''undefined'' | Some s \<Rightarrow> s)"

section \<open>The upload widget (components/FileUpload.tsx)\<close>

text \<open>
  An event's \<open>files\<close> is a \<open>FileList\<close> or \<open>null\<close>; \<open>files[0]\<close> of an empty list is
  \<open>undefined\<close>. Each handler returns the arguments of its calls of \<open>onFileSelect\<close>, in
  order; \<open>handleDrop\<close> also returns the widget's \<open>isDragging\<close> flag, which it clears.

  \<^verbatim>\<open>const handleDrop = (e) => { e.preventDefault(); setIsDragging(false);
    if (e.dataTransfer.files && e.dataTransfer.files[0]) {
      const file = e.dataTransfer.files[0];
      if (file.type.startsWith('image/')) { onFileSelect(file); } } };\<close>
\<close>

definition handleDrop :: "File list option \<Rightarrow> bool \<times> File list" where
  "handleDrop files =
     (False,
      case files of
        None \<Rightarrow> []
      | Some [] \<Rightarrow> []
      | Some (file # rest) \<Rightarrow>
          if prefix ''image/'' (file_type file) then [file] else [])"

text \<open>
  \<^verbatim>\<open>const handleFileChange = (e) => {
    if (e.target.files && e.target.files[0]) { onFileSelect(e.target.files[0]); } };\<close>
\<close>

definition handleFileChange :: "File list option \<Rightarrow> File list" where
  "handleFileChange files =
     (case files of
        None \<Rightarrow> []
      | Some [] \<Rightarrow> []
      | Some (file # rest) \<Rightarrow> [file])"

section \<open>The remote operation client (services/geminiService.ts)\<close>

text \<open>
  The operation handle the SDK returns. The code reads \<open>operation.done\<close> (falsy when
  absent, so a \<open>bool\<close>; \<open>done\<close> is a reserved word of Isabelle),
  \<open>operation.error\<close> with its optional \<open>message\<close>, and the optional chain
  \<open>operation.response?.generatedVideos?.[0]?.video?.uri\<close>.
\<close>

record OperationError =
  err_message :: "string option"

record Video =
  uri :: "string option"

record GeneratedVideo =
  video :: "Video option"

record GenerateVideosResponse =
  generatedVideos :: "GeneratedVideo list option"

record Operation =
  op_done :: bool
  op_error :: "OperationError option"
  response :: "GenerateVideosResponse option"

text \<open>The argument of \<open>ai.models.generateVideos\<close>.\<close>

record Image =
  imageBytes :: "string option"
  mimeType :: string

record Config =
  numberOfVideos :: nat
  resolution :: string
  cfg_aspectRatio :: AspectRatio

record Request =
  model :: string
  req_prompt :: string
  image :: Image
  config :: Config

text \<open>
  Everything the controller and the client do to the outside world, in the order they do
  it: the values passed to \<open>setVideoState\<close> (for an updater function, the state it
  yields), the calls of the host's credential capability, the file read, the creation
  request, the 5000 ms timer and the status requests. Console output is not recorded.
\<close>

datatype effect =
    SetVideoState VideoState
  | HasSelectedApiKey
  | OpenSelectKey
  | ReadAsDataURL File
  | GenerateVideos Request
  | Delay nat
  | GetVideosOperation Operation

text \<open>
  The host's optional credential capability \<open>window.aistudio\<close>
  (\<open>hasSelectedApiKey(): Promise<boolean>\<close>, \<open>openSelectKey(): Promise<void>\<close>). A
  promise either rejects (\<open>Inl\<close>) or resolves (\<open>Inr\<close>); \<open>openSelectKey\<close> may be
  called twice in one run, so its outcome is given per call number.
\<close>

record AIStudio =
  hasSelectedApiKey :: "thrown + bool"
  openSelectKey :: "nat \<Rightarrow> thrown + unit"

text \<open>
  The environment of one run: the host capability, the build-time constant
  \<open>process.env.API_KEY\<close> (possibly undefined), what the \<open>FileReader\<close> yields for a file
  (\<open>None\<close> when the read fails, else the data URL), the service's answer to the creation
  request and its answer to the \<open>k\<close>-th status request.
\<close>

record Env =
  aistudio :: "AIStudio option"
  API_KEY :: "string option"
  readAsDataURL :: "File \<Rightarrow> string option"
  generateVideos :: "Request \<Rightarrow> thrown + Operation"
  getVideosOperation :: "nat \<Rightarrow> thrown + Operation"

text \<open>\<open>base64String.split(',')[1]\<close>: the text between the first and the second comma,
  \<open>undefined\<close> when there is no comma.\<close>

definition split_comma_1 :: "string \<Rightarrow> string option" where
  "split_comma_1 s =
     (case dropWhile (\<lambda>c. c \<noteq> CHR '','') s of
        [] \<Rightarrow> None
      | _ # rest \<Rightarrow> Some (takeWhile (\<lambda>c. c \<noteq> CHR '','') rest))"

text \<open>
  \<^verbatim>\<open>export const fileToGenerativePart = async (file) => new Promise((resolve, reject) => {
    const reader = new FileReader();
    reader.onloadend = () => { const base64String = reader.result as string;
      const base64Data = base64String.split(',')[1];
      resolve({ mimeType: file.type, data: base64Data }); };
    reader.onerror = reject;
    reader.readAsDataURL(file); });\<close>
  On a failed read the \<open>error\<close> event comes before \<open>loadend\<close>, so the promise is
  rejected with the event, a value without \<open>message\<close>.
\<close>

definition fileToGenerativePart :: "Env \<Rightarrow> File \<Rightarrow> thrown + Image" where
  "fileToGenerativePart env file =
     (case readAsDataURL env file of
        None \<Rightarrow> Inl (Thrown None)
      | Some base64String \<Rightarrow>
          Inr \<lparr>imageBytes = split_comma_1 base64String, mimeType = file_type file\<rparr>)"

text \<open>
  The creation request of lines 36 to 48:
  \<^verbatim>\<open>{ model: 'veo-3.1-fast-generate-preview',
    prompt: prompt || "Animate this image cinematically",
    image: { imageBytes: imagePart.data, mimeType: imagePart.mimeType },
    config: { numberOfVideos: 1, resolution: '720p', aspectRatio: aspectRatio } }\<close>
\<close>

definition creation_request :: "Image \<Rightarrow> string \<Rightarrow> AspectRatio \<Rightarrow> Request" where
  "creation_request imagePart prompt aspectRatio =
     \<lparr>model = ''veo-3.1-fast-generate-preview'',
      req_prompt = or_default prompt ''Animate this image cinematically'',
      image = \<lparr>imageBytes = imageBytes imagePart, mimeType = mimeType imagePart\<rparr>,
      config = \<lparr>numberOfVideos = 1, resolution = ''720p'', cfg_aspectRatio = aspectRatio\<rparr>\<rparr>"

text \<open>
  The polling loop of lines 53 to 58, which has no bound of its own:
  \<^verbatim>\<open>while (!operation.done) {
    await new Promise(resolve => setTimeout(resolve, 5000));
    operation = await ai.operations.getVideosOperation({ operation: operation }); }\<close>
  \<open>k\<close> counts the status requests issued so far and \<open>lg\<close> is the effect log. The loop
  ends by a handle that is done (\<open>Inr\<close>) or by a rejected status request (\<open>Inl\<close>); a
  service that never does either makes it run forever, which is the value \<open>None\<close>.
\<close>

partial_function (option) poll ::
  "(nat \<Rightarrow> thrown + Operation) \<Rightarrow> nat \<Rightarrow> Operation \<Rightarrow> effect list
     \<Rightarrow> ((thrown + Operation) \<times> nat \<times> effect list) option" where
  "poll getOp k operation lg =
     (if \<not> op_done operation then
        (case getOp k of
           Inl e \<Rightarrow> Some (Inl e, Suc k, lg @ [Delay 5000, GetVideosOperation operation])
         | Inr operation' \<Rightarrow>
             poll getOp (Suc k) operation' (lg @ [Delay 5000, GetVideosOperation operation]))
      else Some (Inr operation, k, lg))"

declare poll.simps [code]

text \<open>
  \<^verbatim>\<open>const videoUri = operation.response?.generatedVideos?.[0]?.video?.uri;\<close>
\<close>

definition videoUri :: "Operation \<Rightarrow> string option" where
  "videoUri operation =
     (case response operation of
        None \<Rightarrow> None
      | Some r \<Rightarrow>
          (case generatedVideos r of
             None \<Rightarrow> None
           | Some [] \<Rightarrow> None
           | Some (g # rest) \<Rightarrow> (case video g of None \<Rightarrow> None | Some v \<Rightarrow> uri v)))"

text \<open>
  \<open>generateVeoVideo\<close>, lines 60 to 71: what the function makes of the handle the loop
  ended on.
  \<^verbatim>\<open>if (operation.error) {
    throw new Error(`Video generation failed: ${operation.error.message || 'Unknown error'}`); }
  const videoUri = ...;
  if (!videoUri) { throw new Error("No video URI returned from the API."); }
  return `${videoUri}&key=${process.env.API_KEY}`;\<close>
\<close>

definition resolve_operation :: "Env \<Rightarrow> Operation \<Rightarrow> thrown + string" where
  "resolve_operation env operation =
     (case op_error operation of
        Some err \<Rightarrow>
          Inl (Error (''Video generation failed: '' @
                      opt_or_default (err_message err) ''Unknown error''))
      | None \<Rightarrow>
          if \<not> truthy (videoUri operation)
          then Inl (Error ''No video URI returned from the API.'')
          else Inr (template (videoUri operation) @ ''&key='' @ template (API_KEY env)))"

text \<open>
  \<open>generateVeoVideo\<close>, lines 29 to 48: read the file and send the one creation request.
  The SDK client is built first (\<open>new GoogleGenAI({ apiKey: process.env.API_KEY })\<close>);
  the constructor sends nothing and is taken not to throw.
\<close>

definition submit ::
  "Env \<Rightarrow> File \<Rightarrow> string \<Rightarrow> AspectRatio \<Rightarrow> (thrown + Operation) \<times> effect list" where
  "submit env imageFile prompt aspectRatio =
     (case fileToGenerativePart env imageFile of
        Inl e \<Rightarrow> (Inl e, [ReadAsDataURL imageFile])
      | Inr imagePart \<Rightarrow>
          (let req = creation_request imagePart prompt aspectRatio in
           (generateVideos env req, [ReadAsDataURL imageFile, GenerateVideos req])))"

text \<open>
  \<open>generateVeoVideo\<close>, lines 29 to 58: submit, then poll. The result is the handle the
  loop ended on, or what was thrown on the way.
\<close>

definition await_completion ::
  "Env \<Rightarrow> File \<Rightarrow> string \<Rightarrow> AspectRatio \<Rightarrow> ((thrown + Operation) \<times> effect list) option" where
  "await_completion env imageFile prompt aspectRatio =
     (case submit env imageFile prompt aspectRatio of
        (Inl e, lg) \<Rightarrow> Some (Inl e, lg)
      | (Inr operation, lg) \<Rightarrow>
          (case poll (getVideosOperation env) 0 operation lg of
             None \<Rightarrow> None
           | Some (r, k, lg') \<Rightarrow> Some (r, lg')))"

definition generateVeoVideo ::
  "Env \<Rightarrow> File \<Rightarrow> string \<Rightarrow> AspectRatio \<Rightarrow> ((thrown + string) \<times> effect list) option" where
  "generateVeoVideo env imageFile prompt aspectRatio =
     (case await_completion env imageFile prompt aspectRatio of
        None \<Rightarrow> None
      | Some (Inl e, lg) \<Rightarrow> Some (Inl e, lg)
      | Some (Inr operation, lg) \<Rightarrow> Some (resolve_operation env operation, lg))"

section \<open>The generation workflow controller (App.tsx)\<close>

text \<open>The values and updater functions \<open>handleGenerate\<close> passes to \<open>setVideoState\<close>.\<close>

text \<open>Lines 12 to 17, the initial state.\<close>

definition initial_state :: VideoState where
  "initial_state = \<lparr>isLoading = False, progressMessage = [], videoUrl = None, error = None\<rparr>"

text \<open>Lines 22 to 27.\<close>

definition start_state :: VideoState where
  "start_state =
     \<lparr>isLoading = True, progressMessage = ''Initializing authentication...'',
      videoUrl = None, error = None\<rparr>"

text \<open>Line 43: \<open>prev => ({ ...prev, progressMessage: '...' })\<close>.\<close>

definition uploading :: "VideoState \<Rightarrow> VideoState" where
  "uploading prev = prev\<lparr>progressMessage := ''Uploading image & starting generation...''\<rparr>"

text \<open>Lines 48 to 53.\<close>

definition done_state :: "string \<Rightarrow> VideoState" where
  "done_state url =
     \<lparr>isLoading = False, progressMessage = ''Done!'', videoUrl = Some url, error = None\<rparr>"

text \<open>Lines 61 to 65 and 71 to 75: \<open>prev => ({ ...prev, isLoading: false, error: msg })\<close>.\<close>

definition failed :: "string \<Rightarrow> VideoState \<Rightarrow> VideoState" where
  "failed msg prev = prev\<lparr>isLoading := False, error := Some msg\<rparr>"

text \<open>Line 220, the button of the error pane: \<open>prev => ({ ...prev, error: null })\<close>.\<close>

definition dismiss :: "VideoState \<Rightarrow> VideoState" where
  "dismiss prev = prev\<lparr>error := None\<rparr>"

text \<open>
  Lines 31 to 41, the credential check:
  \<^verbatim>\<open>if (window.aistudio) {
    const hasKey = await window.aistudio.hasSelectedApiKey();
    if (!hasKey) {
      try { await window.aistudio.openSelectKey(); }
      catch (err) { throw new Error("API Key selection is required to proceed."); } } }\<close>
\<close>

definition authenticate :: "Env \<Rightarrow> (thrown + unit) \<times> effect list" where
  "authenticate env =
     (case aistudio env of
        None \<Rightarrow> (Inr (), [])
      | Some studio \<Rightarrow>
          (case hasSelectedApiKey studio of
             Inl e \<Rightarrow> (Inl e, [HasSelectedApiKey])
           | Inr hasKey \<Rightarrow>
               if \<not> hasKey then
                 (case openSelectKey studio 0 of
                    Inl err \<Rightarrow>
                      (Inl (Error ''API Key selection is required to proceed.''),
                       [HasSelectedApiKey, OpenSelectKey])
                  | Inr u \<Rightarrow> (Inr (), [HasSelectedApiKey, OpenSelectKey]))
               else (Inr (), [HasSelectedApiKey])))"

text \<open>
  Lines 55 to 77, the catch block, run on the state and the log at the time of the throw:
  \<^verbatim>\<open>const errorMessage = error?.message || "An unexpected error occurred";
  if (errorMessage.includes("Requested entity was not found")) {
    setVideoState(prev => ({ ...prev, isLoading: false,
      error: "API Key session invalid. Please try generating again to select a new key." }));
    if (window.aistudio) { try { await window.aistudio.openSelectKey(); } catch(e) {} }
  } else {
    setVideoState(prev => ({ ...prev, isLoading: false, error: errorMessage })); }\<close>
\<close>

definition catch_block :: "Env \<Rightarrow> thrown \<Rightarrow> VideoState \<times> effect list \<Rightarrow> VideoState \<times> effect list" where
  "catch_block env err run =
     (case run of (prev, lg) \<Rightarrow>
        (let errorMessage = opt_or_default (message err) ''An unexpected error occurred'' in
         if str_includes errorMessage ''Requested entity was not found'' then
           (let s = failed ''API Key session invalid. Please try generating again to select a new key.'' prev;
                lg' = lg @ [SetVideoState s] in
            case aistudio env of
              None \<Rightarrow> (s, lg')
            | Some studio \<Rightarrow>
                (case openSelectKey studio (count_list lg' OpenSelectKey) of
                   Inl e \<Rightarrow> (s, lg' @ [OpenSelectKey])
                 | Inr u \<Rightarrow> (s, lg' @ [OpenSelectKey])))
         else
           (let s = failed errorMessage prev in (s, lg @ [SetVideoState s]))))"

text \<open>
  \<open>handleGenerate\<close>, lines 22 to 53: the first state update and the \<open>try\<close> body. The
  result says whether the body completed (\<open>Inr\<close>) or threw (\<open>Inl\<close>), with the workflow
  state and the effect log at that moment; \<open>None\<close> when the polling loop never ends.
\<close>

definition try_block ::
  "Env \<Rightarrow> File \<Rightarrow> string \<Rightarrow> AspectRatio
     \<Rightarrow> ((thrown + unit) \<times> VideoState \<times> effect list) option" where
  "try_block env f prompt aspectRatio =
     (let s1 = start_state; lg1 = [SetVideoState s1] in
      case authenticate env of
        (Inl e, la) \<Rightarrow> Some (Inl e, s1, lg1 @ la)
      | (Inr u, la) \<Rightarrow>
          (let s2 = uploading s1; lg2 = lg1 @ la @ [SetVideoState s2] in
           case generateVeoVideo env f prompt aspectRatio of
             None \<Rightarrow> None
           | Some (Inl e, lg) \<Rightarrow> Some (Inl e, s2, lg2 @ lg)
           | Some (Inr url, lg) \<Rightarrow>
               Some (Inr (), done_state url, lg2 @ lg @ [SetVideoState (done_state url)])))"

text \<open>
  \<open>handleGenerate\<close>, lines 19 to 78, on the component's \<open>file\<close>, \<open>prompt\<close>, \<open>aspectRatio\<close>
  and the current workflow state: the workflow state it leaves and the effects in order,
  or \<open>None\<close> when the polling loop never ends. Line 20 is \<open>if (!file) return;\<close>.
\<close>

definition handleGenerate ::
  "Env \<Rightarrow> File option \<Rightarrow> string \<Rightarrow> AspectRatio \<Rightarrow> VideoState \<Rightarrow> (VideoState \<times> effect list) option" where
  "handleGenerate env file prompt aspectRatio vs =
     (case file of
        None \<Rightarrow> Some (vs, [])
      | Some f \<Rightarrow>
          (case try_block env f prompt aspectRatio of
             None \<Rightarrow> None
           | Some (Inl e, run) \<Rightarrow> Some (catch_block env e run)
           | Some (Inr u, run) \<Rightarrow> Some run))"

section \<open>The component's state and its events\<close>

text \<open>The four \<open>useState\<close> cells of \<open>App\<close>, lines 9 to 17 (\<open>file\<close> is a reserved word
  of Isabelle, hence \<open>app_file\<close>).\<close>

record App =
  app_file :: "File option"
  prompt :: string
  aspectRatio :: AspectRatio
  videoState :: VideoState

definition initial_App :: App where
  "initial_App =
     \<lparr>app_file = None, prompt = [], aspectRatio = LANDSCAPE, videoState = initial_state\<rparr>"

text \<open>The click on "Try Again" (line 220) calls \<open>setVideoState\<close> and nothing else.\<close>

definition click_dismiss :: "App \<Rightarrow> App" where
  "click_dismiss app = app\<lparr>videoState := dismiss (videoState app)\<rparr>"

text \<open>
  The "Generate Video" button is rendered with \<open>disabled={!file}\<close> and
  \<open>isLoading={videoState.isLoading}\<close> (lines 158 to 162), and \<open>Button\<close> gives the DOM button
  \<open>disabled={disabled || isLoading}\<close>: a click reaches \<open>handleGenerate\<close> only when a file
  is selected and the state is not loading.
\<close>

definition generate_enabled :: "App \<Rightarrow> bool" where
  "generate_enabled app = (\<not> (app_file app = None \<or> isLoading (videoState app)))"

text \<open>
  The four conditions of the result pane (lines 183, 197, 210, 229), with a nullable
  string counted as present when it is not \<open>null\<close>.
\<close>

definition busy :: "VideoState \<Rightarrow> bool" where
  "busy vs = isLoading vs"

definition has_result :: "VideoState \<Rightarrow> bool" where
  "has_result vs = (videoUrl vs \<noteq> None)"

definition has_error :: "VideoState \<Rightarrow> bool" where
  "has_error vs = (error vs \<noteq> None)"

definition idle :: "VideoState \<Rightarrow> bool" where
  "idle vs = (\<not> busy vs \<and> \<not> has_result vs \<and> \<not> has_error vs)"

definition exactly_one :: "VideoState \<Rightarrow> bool" where
  "exactly_one vs =
     (length (filter (\<lambda>c. c vs) [busy, has_result, has_error, idle]) = 1)"

text \<open>
  What the result pane hands to the player and to the download link: the player is
  rendered under \<open>videoState.videoUrl && !videoState.isLoading\<close> with
  \<open>src={videoState.videoUrl}\<close> (lines 229 to 236), the link under \<open>videoState.videoUrl\<close>
  with \<open>href={videoState.videoUrl}\<close> (lines 245 to 248).
\<close>

definition player_src :: "VideoState \<Rightarrow> string option" where
  "player_src vs = (if truthy (videoUrl vs) \<and> \<not> isLoading vs then videoUrl vs else None)"

definition download_href :: "VideoState \<Rightarrow> string option" where
  "download_href vs = (if truthy (videoUrl vs) then videoUrl vs else None)"

text \<open>
  The component as a transition system. A configuration is the component's state with
  the number of \<open>handleGenerate\<close> calls that have made their first \<open>setVideoState\<close> and not
  yet their last. Each rule is one state update of the source: the setters of the form
  (\<open>onFileSelect={setFile}\<close>, \<open>setPrompt\<close>, \<open>setAspectRatio\<close>), the first update of a run
  (behind the button's guard), the progress update, the final update of a run that
  succeeded or failed (with any URL and any message), and the dismissal (allowed in every
  state, although its button is rendered only with an error).
\<close>

inductive step :: "App \<times> nat \<Rightarrow> App \<times> nat \<Rightarrow> bool" where
  select_file: "step (app, n) (app\<lparr>app_file := Some f\<rparr>, n)"
| edit_prompt: "step (app, n) (app\<lparr>prompt := p\<rparr>, n)"
| pick_ratio: "step (app, n) (app\<lparr>aspectRatio := a\<rparr>, n)"
| run_start: "generate_enabled app \<Longrightarrow> step (app, n) (app\<lparr>videoState := start_state\<rparr>, Suc n)"
| run_progress: "step (app, Suc n) (app\<lparr>videoState := uploading (videoState app)\<rparr>, Suc n)"
| run_success: "step (app, Suc n) (app\<lparr>videoState := done_state url\<rparr>, n)"
| run_failure: "step (app, Suc n) (app\<lparr>videoState := failed msg (videoState app)\<rparr>, n)"
| dismissal: "step (app, n) (click_dismiss app, n)"

inductive reachable :: "App \<times> nat \<Rightarrow> bool" where
  initial: "reachable (initial_App, 0)"
| after_step: "reachable c \<Longrightarrow> step c c' \<Longrightarrow> reachable c'"

text \<open>The handles a run receives: the answer to the creation request, then the answers
  to the status requests.\<close>

definition handle_seq :: "Env \<Rightarrow> Request \<Rightarrow> nat \<Rightarrow> thrown + Operation" where
  "handle_seq env req k =
     (case k of 0 \<Rightarrow> generateVideos env req | Suc i \<Rightarrow> getVideosOperation env i)"

text \<open>The number of status requests in an effect log.\<close>

fun is_status_request :: "effect \<Rightarrow> bool" where
  "is_status_request (GetVideosOperation operation) = True"
| "is_status_request e = False"

definition status_requests :: "effect list \<Rightarrow> nat" where
  "status_requests lg = length (filter is_status_request lg)"

text \<open>The creation requests in an effect log, and the number of calls of the credential
  selector in it.\<close>

fun creation_requests :: "effect list \<Rightarrow> Request list" where
  "creation_requests [] = []"
| "creation_requests (GenerateVideos req # es) = req # creation_requests es"
| "creation_requests (e # es) = creation_requests es"

definition reselections :: "effect list \<Rightarrow> nat" where
  "reselections lg = count_list lg OpenSelectKey"

text \<open>
  The invariant of the transition system: while the state is loading exactly one run is
  in flight and neither a result nor an error is set; otherwise no run is in flight and a
  result and an error are never set together.
\<close>

definition workflow_inv :: "App \<times> nat \<Rightarrow> bool" where
  "workflow_inv c =
     (case c of (app, n) \<Rightarrow>
        (if isLoading (videoState app)
         then n = 1 \<and> videoUrl (videoState app) = None \<and> error (videoState app) = None
         else n = 0 \<and> (videoUrl (videoState app) = None \<or> error (videoState app) = None)))"

section \<open>Example inputs\<close>

text \<open>A 20 MiB JPEG, and a PDF of the same size.\<close>

definition example_file :: File where
  "example_file =
     \<lparr>file_name = ''landscape.jpg'', file_type = ''image/jpeg'', file_size = 20971520\<rparr>"

definition example_pdf :: File where
  "example_pdf =
     \<lparr>file_name = ''paper.pdf'', file_type = ''application/pdf'', file_size = 20971520\<rparr>"

text \<open>Handles: still running, finished with a video, finished with an error payload.\<close>

definition pending_handle :: Operation where
  "pending_handle = \<lparr>op_done = False, op_error = None, response = None\<rparr>"

definition finished_handle :: "string option \<Rightarrow> Operation" where
  "finished_handle u =
     \<lparr>op_done = True, op_error = None,
      response = Some \<lparr>generatedVideos = Some [\<lparr>video = Some \<lparr>uri = u\<rparr>\<rparr>]\<rparr>\<rparr>"

definition failed_handle :: "string option \<Rightarrow> Operation" where
  "failed_handle m =
     \<lparr>op_done = True, op_error = Some \<lparr>err_message = m\<rparr>, response = None\<rparr>"

text \<open>
  An environment without the host capability, whose service answers the creation request
  with the given handle, the first status request with a pending handle and every later
  one with the finished handle of \<open>https://x/video1\<close>.
\<close>

definition example_env :: "Operation \<Rightarrow> Env" where
  "example_env first =
     \<lparr>aistudio = None,
      API_KEY = Some ''SECRET'',
      readAsDataURL = (\<lambda>f. Some ''data:image/jpeg;base64,QUJD''),
      generateVideos = (\<lambda>req. Inr first),
      getVideosOperation =
        (\<lambda>k. if k = 0 then Inr pending_handle
             else Inr (finished_handle (Some ''https://x/video1'')))\<rparr>"

text \<open>A host capability with a credential selected, whose selector always fails.\<close>

definition example_studio :: AIStudio where
  "example_studio =
     \<lparr>hasSelectedApiKey = Inr True, openSelectKey = (\<lambda>k. Inl (Thrown None))\<rparr>"

text \<open>The same environment with a service that rejects the creation request the way it
  does for a stale credential.\<close>

definition stale_env :: Env where
  "stale_env =
     (example_env pending_handle)
       \<lparr>generateVideos := (\<lambda>req. Inl (Error ''404 Requested entity was not found.''))\<rparr>"

text \<open>The component after a file was chosen, a prompt typed and a run failed.\<close>

definition example_failed_App :: App where
  "example_failed_App =
     \<lparr>app_file = Some example_file, prompt = ''pan left'', aspectRatio = LANDSCAPE,
      videoState = failed ''Video generation failed: Unknown error'' (uploading start_state)\<rparr>"

section \<open>Evaluation rules and bookkeeping lemmas\<close>

lemmas model_defs = handleGenerate_def try_block_def catch_block_def authenticate_def
  generateVeoVideo_def await_completion_def submit_def fileToGenerativePart_def
  resolve_operation_def videoUri_def creation_request_def split_comma_1_def
  or_default_def opt_or_default_def truthy_def template_def
  start_state_def uploading_def done_state_def failed_def handle_seq_def

lemmas example_defs = example_env_def example_file_def example_pdf_def pending_handle_def
  finished_handle_def failed_handle_def example_studio_def stale_env_def

text \<open>One turn of the loop, as three conditional equations (the unconditional
  \<open>poll.simps\<close> would unfold without end).\<close>

lemma poll_done:
  "op_done operation \<Longrightarrow> poll getOp k operation lg = Some (Inr operation, k, lg)"
  by (subst poll.simps) simp

lemma poll_step:
  "\<not> op_done operation \<Longrightarrow> getOp k = Inr operation' \<Longrightarrow>
   poll getOp k operation lg =
     poll getOp (Suc k) operation' (lg @ [Delay 5000, GetVideosOperation operation])"
  by (subst poll.simps) simp

lemma poll_throw:
  "\<not> op_done operation \<Longrightarrow> getOp k = Inl e \<Longrightarrow>
   poll getOp k operation lg =
     Some (Inl e, Suc k, lg @ [Delay 5000, GetVideosOperation operation])"
  by (subst poll.simps) simp

lemma status_requests_append [simp]:
  "status_requests (xs @ ys) = status_requests xs + status_requests ys"
  by (simp add: status_requests_def)

lemma status_requests_simps [simp]:
  "status_requests [] = 0"
  "status_requests (GetVideosOperation operation # xs) = Suc (status_requests xs)"
  "status_requests (Delay d # xs) = status_requests xs"
  "status_requests (SetVideoState s # xs) = status_requests xs"
  "status_requests (HasSelectedApiKey # xs) = status_requests xs"
  "status_requests (OpenSelectKey # xs) = status_requests xs"
  "status_requests (ReadAsDataURL f # xs) = status_requests xs"
  "status_requests (GenerateVideos req # xs) = status_requests xs"
  by (simp_all add: status_requests_def)

section \<open>The polling loop\<close>

text \<open>
  Termination: when the handles \<open>H 0\<close> (the one the loop starts with), \<open>H 1\<close>, ... that
  the service hands out are not done before the \<open>n\<close>-th and the \<open>n\<close>-th is done, the loop
  returns that handle after exactly \<open>n\<close> status requests.
\<close>

lemma poll_first_done:
  assumes "H 0 = operation"
      and "\<forall>i<n. getOp (k + i) = Inr (H (Suc i))"
      and "\<forall>i<n. \<not> op_done (H i)"
      and "op_done (H n)"
  shows "\<exists>lg'. poll getOp k operation lg = Some (Inr (H n), k + n, lg') \<and>
               status_requests lg' = status_requests lg + n"
  using assms
proof (induction n arbitrary: k operation lg H)
  case 0
  then show ?case by (simp add: poll_done)
next
  case (Suc n)
  from Suc.prems have nd: "\<not> op_done operation" by force
  from Suc.prems(2) have g: "getOp k = Inr (H (Suc 0))" by force
  let ?lg = "lg @ [Delay 5000, GetVideosOperation operation]"
  have "\<exists>lg'. poll getOp (Suc k) (H (Suc 0)) ?lg = Some (Inr ((H \<circ> Suc) n), Suc k + n, lg') \<and>
              status_requests lg' = status_requests ?lg + n"
  proof (rule Suc.IH)
    show "(H \<circ> Suc) 0 = H (Suc 0)" by simp
    show "\<forall>i<n. getOp (Suc k + i) = Inr ((H \<circ> Suc) (Suc i))"
      using Suc.prems(2) by (metis Suc_less_eq add_Suc_shift comp_apply)
    show "\<forall>i<n. \<not> op_done ((H \<circ> Suc) i)" using Suc.prems(3) by simp
    show "op_done ((H \<circ> Suc) n)" using Suc.prems(4) by simp
  qed
  then show ?case
    using poll_step [of operation getOp k "H (Suc 0)" lg, OF nd g] by simp
qed

text \<open>
  Partial correctness, by fixpoint induction: a handle the loop returns is done, it is the
  last of the handles received, none before it was done, and the loop asked once for each
  handle after the first.
\<close>

lemma poll_returns:
  assumes "poll getOp k operation lg = Some (Inr h, k', lg')"
  shows "\<exists>n H. H 0 = operation \<and> H n = h \<and> k' = k + n \<and> op_done h \<and>
               (\<forall>i<n. \<not> op_done (H i) \<and> getOp (k + i) = Inr (H (Suc i))) \<and>
               status_requests lg' = status_requests lg + n"
proof -
  let ?P = "\<lambda>(getOp :: nat \<Rightarrow> thrown + Operation) k operation lg
               (y :: (thrown + Operation) \<times> nat \<times> effect list).
     \<forall>h k' lg'. y = (Inr h, k', lg') \<longrightarrow>
       (\<exists>n H. H 0 = operation \<and> H n = h \<and> k' = k + n \<and> op_done h \<and>
              (\<forall>i<n. \<not> op_done (H i) \<and> getOp (k + i) = Inr (H (Suc i))) \<and>
              status_requests lg' = status_requests lg + n)"
  have "?P getOp k operation lg (Inr h, k', lg')"
  proof (rule poll.raw_induct [where P = ?P, OF _ assms])
    fix poll' getOp k operation lg y
    assume IH: "\<And>g k operation lg y. poll' g k operation lg = Some y \<Longrightarrow> ?P g k operation lg y"
      and eq: "(if \<not> op_done operation
                then case getOp k of
                       Inl e \<Rightarrow> Some (Inl e, Suc k, lg @ [Delay 5000, GetVideosOperation operation])
                     | Inr operation' \<Rightarrow>
                         poll' getOp (Suc k) operation'
                           (lg @ [Delay 5000, GetVideosOperation operation])
                else Some (Inr operation, k, lg)) = Some y"
    show "?P getOp k operation lg y"
    proof (cases "op_done operation")
      case True
      with eq have y: "y = (Inr operation, k, lg)" by simp
      show ?thesis
      proof (intro allI impI)
        fix h k' lg' assume "y = (Inr h, k', lg')"
        with y have e: "h = operation" "k' = k" "lg' = lg" by simp_all
        show "\<exists>n H. H 0 = operation \<and> H n = h \<and> k' = k + n \<and> op_done h \<and>
                    (\<forall>i<n. \<not> op_done (H i) \<and> getOp (k + i) = Inr (H (Suc i))) \<and>
                    status_requests lg' = status_requests lg + n"
          by (rule exI [of _ 0], rule exI [of _ "\<lambda>i. operation"]) (simp add: e True)
      qed
    next
      case False
      show ?thesis
      proof (cases "getOp k")
        case (Inl e)
        with False eq show ?thesis by auto
      next
        case (Inr operation')
        let ?lg = "lg @ [Delay 5000, GetVideosOperation operation]"
        from Inr False eq have call: "poll' getOp (Suc k) operation' ?lg = Some y" by simp
        show ?thesis
        proof (intro allI impI)
          fix h k' lg' assume "y = (Inr h, k', lg')"
          with IH [OF call] obtain n H where
            H: "H 0 = operation'" "H n = h" "k' = Suc k + n" "op_done h"
               "\<forall>i<n. \<not> op_done (H i) \<and> getOp (Suc k + i) = Inr (H (Suc i))"
               "status_requests lg' = status_requests ?lg + n"
            by blast
          let ?H = "\<lambda>i. case i of 0 \<Rightarrow> operation | Suc j \<Rightarrow> H j"
          have "\<forall>i<Suc n. \<not> op_done (?H i) \<and> getOp (k + i) = Inr (?H (Suc i))"
          proof (intro allI impI)
            fix i assume "i < Suc n"
            then show "\<not> op_done (?H i) \<and> getOp (k + i) = Inr (?H (Suc i))"
              using False Inr H(1) H(5) by (cases i) auto
          qed
          then show "\<exists>n H. H 0 = operation \<and> H n = h \<and> k' = k + n \<and> op_done h \<and>
                    (\<forall>i<n. \<not> op_done (H i) \<and> getOp (k + i) = Inr (H (Suc i))) \<and>
                    status_requests lg' = status_requests lg + n"
            using H by (intro exI [of _ "Suc n"] exI [of _ ?H]) simp
        qed
      qed
    qed
  qed
  then show ?thesis by simp
qed

section \<open>The client and the controller, step by step\<close>

lemma await_completion_Inr:
  assumes "await_completion env f p ar = Some (Inr h, lg)"
  shows "\<exists>imagePart first k.
           fileToGenerativePart env f = Inr imagePart \<and>
           generateVideos env (creation_request imagePart p ar) = Inr first \<and>
           poll (getVideosOperation env) 0 first
             [ReadAsDataURL f, GenerateVideos (creation_request imagePart p ar)] = Some (Inr h, k, lg)"
  using assms
  by (auto simp: await_completion_def submit_def Let_def
           split: sum.splits option.splits prod.splits)

lemma await_completion_done:
  assumes "await_completion env f p ar = Some (Inr h, lg)"
  shows "op_done h"
proof -
  from await_completion_Inr [OF assms] obtain imagePart first k where
    "poll (getVideosOperation env) 0 first
       [ReadAsDataURL f, GenerateVideos (creation_request imagePart p ar)] = Some (Inr h, k, lg)"
    by blast
  from poll_returns [OF this] show ?thesis by blast
qed

text \<open>The handles a run received, read off the handle sequence of its environment.\<close>

lemma await_completion_handles:
  assumes "await_completion env f p ar = Some (Inr h, lg)"
  shows "\<exists>imagePart.
           fileToGenerativePart env f = Inr imagePart \<and>
           handle_seq env (creation_request imagePart p ar) (status_requests lg) = Inr h \<and>
           op_done h \<and>
           (\<forall>i<status_requests lg.
              \<exists>h'. handle_seq env (creation_request imagePart p ar) i = Inr h' \<and> \<not> op_done h')"
proof -
  from await_completion_Inr [OF assms] obtain imagePart first k where
    part: "fileToGenerativePart env f = Inr imagePart" and
    first: "generateVideos env (creation_request imagePart p ar) = Inr first" and
    poll: "poll (getVideosOperation env) 0 first
             [ReadAsDataURL f, GenerateVideos (creation_request imagePart p ar)] = Some (Inr h, k, lg)"
    by blast
  let ?req = "creation_request imagePart p ar"
  from poll_returns [OF poll] obtain n H where
    H: "H 0 = first" "H n = h" "op_done h"
       "\<forall>i<n. \<not> op_done (H i) \<and> getVideosOperation env (0 + i) = Inr (H (Suc i))"
       "status_requests lg = n"
    by auto
  have seq: "handle_seq env ?req i = Inr (H i)" if "i \<le> n" for i
    using that first H(1,4) by (cases i) (auto simp: handle_seq_def)
  have "\<forall>i<n. \<exists>h'. handle_seq env ?req i = Inr h' \<and> \<not> op_done h'"
    using seq H(4) by auto
  with part seq [of n] H(2,3,5) show ?thesis by auto
qed

lemma await_completion_first_done:
  assumes "fileToGenerativePart env f = Inr imagePart"
      and "handle_seq env (creation_request imagePart p ar) n = Inr h"
      and "op_done h"
      and "\<forall>i<n. \<exists>h'. handle_seq env (creation_request imagePart p ar) i = Inr h' \<and> \<not> op_done h'"
  shows "\<exists>lg. await_completion env f p ar = Some (Inr h, lg) \<and> status_requests lg = n"
proof -
  let ?req = "creation_request imagePart p ar"
  define H where "H i = projr (handle_seq env ?req i)" for i
  have seq: "handle_seq env ?req i = Inr (H i)" if "i \<le> n" for i
    using that assms(2,4) unfolding H_def by (metis le_neq_implies_less sum.sel(2))
  have first: "generateVideos env ?req = Inr (H 0)"
    using seq [of 0] by (simp add: handle_seq_def)
  have polls: "\<forall>i<n. getVideosOperation env (0 + i) = Inr (H (Suc i))"
  proof (intro allI impI)
    fix i assume "i < n"
    then have "handle_seq env ?req (Suc i) = Inr (H (Suc i))" by (intro seq) simp
    then show "getVideosOperation env (0 + i) = Inr (H (Suc i))" by (simp add: handle_seq_def)
  qed
  have nd: "\<forall>i<n. \<not> op_done (H i)"
    using assms(4) seq by fastforce
  have d: "op_done (H n)" using seq [of n] assms(2,3) by simp
  have hn: "H n = h" using seq [of n] assms(2) by simp
  from poll_first_done [of H "H 0" n "getVideosOperation env" 0, OF refl polls nd d]
  obtain lg' where
    "poll (getVideosOperation env) 0 (H 0) [ReadAsDataURL f, GenerateVideos ?req]
       = Some (Inr (H n), 0 + n, lg')"
    "status_requests lg' = status_requests [ReadAsDataURL f, GenerateVideos ?req] + n"
    by blast
  then show ?thesis
    using assms(1) first hn by (simp add: await_completion_def submit_def Let_def)
qed

lemma status_requests_authenticate [simp]: "status_requests (snd (authenticate env)) = 0"
  by (simp add: authenticate_def split: option.splits sum.splits)

lemma fst_catch_block:
  "fst (catch_block env e (prev, lg)) =
     failed (if str_includes (opt_or_default (message e) ''An unexpected error occurred'')
                  ''Requested entity was not found''
             then ''API Key session invalid. Please try generating again to select a new key.''
             else opt_or_default (message e) ''An unexpected error occurred'') prev"
  by (simp add: catch_block_def Let_def split: option.splits sum.splits)

lemma catch_block_failed:
  "\<exists>msg lg'. catch_block env e (prev, lg) = (failed msg prev, lg')"
  by (metis fst_catch_block surjective_pairing)

lemma status_requests_catch_block [simp]:
  "status_requests (snd (catch_block env e (prev, lg))) = status_requests lg"
  by (simp add: catch_block_def Let_def split: option.splits sum.splits)

lemma isLoading_catch_block [simp]: "\<not> isLoading (fst (catch_block env e (prev, lg)))"
  by (simp add: fst_catch_block failed_def)

text \<open>A run that passed the credential check and whose loop ended on a handle.\<close>

lemma handleGenerate_resolved:
  assumes "fst (authenticate env) = Inr ()"
      and "await_completion env f p ar = Some (Inr operation, lg)"
  shows "handleGenerate env (Some f) p ar vs =
           (let lg2 = [SetVideoState start_state] @ snd (authenticate env) @
                      [SetVideoState (uploading start_state)] @ lg in
            case resolve_operation env operation of
              Inl e \<Rightarrow> Some (catch_block env e (uploading start_state, lg2))
            | Inr url \<Rightarrow> Some (done_state url, lg2 @ [SetVideoState (done_state url)]))"
  using assms
  by (cases "authenticate env")
     (simp add: handleGenerate_def try_block_def generateVeoVideo_def Let_def split: sum.splits)

text \<open>A run that left a result behind went all the way.\<close>

lemma handleGenerate_success:
  assumes "handleGenerate env (Some f) p ar vs = Some (vs', lg)"
      and "videoUrl vs' \<noteq> None"
  shows "\<exists>operation lg1 url.
           await_completion env f p ar = Some (Inr operation, lg1) \<and>
           resolve_operation env operation = Inr url \<and> vs' = done_state url \<and>
           status_requests lg = status_requests lg1"
proof -
  obtain r la where auth: "authenticate env = (r, la)" by (cases "authenticate env")
  have la: "status_requests la = 0"
    using status_requests_authenticate [of env] auth by simp
  have no_url: "\<And>e run. catch_block env e (uploading start_state, run) = (vs', lg) \<Longrightarrow> False"
               "\<And>e run. catch_block env e (start_state, run) = (vs', lg) \<Longrightarrow> False"
    using assms(2) fst_catch_block [of env _ "uploading start_state"]
      fst_catch_block [of env _ start_state]
    by (auto simp: failed_def uploading_def start_state_def dest!: arg_cong [where f = fst])
  show ?thesis
    using assms(1) auth la
    by (cases r)
       (auto simp: handleGenerate_def try_block_def generateVeoVideo_def Let_def
             split: option.splits sum.splits prod.splits dest: no_url)
qed

lemma creation_requests_append [simp]:
  "creation_requests (xs @ ys) = creation_requests xs @ creation_requests ys"
  by (induction xs rule: creation_requests.induct) simp_all

text \<open>The loop sends no creation request.\<close>

lemma poll_creation_requests:
  assumes "poll getOp k operation lg = Some (r, k', lg')"
  shows "creation_requests lg' = creation_requests lg"
proof -
  let ?P = "\<lambda>(getOp :: nat \<Rightarrow> thrown + Operation) (k :: nat) (operation :: Operation) lg
               (y :: (thrown + Operation) \<times> nat \<times> effect list).
              creation_requests (snd (snd y)) = creation_requests lg"
  have "?P getOp k operation lg (r, k', lg')"
  proof (rule poll.raw_induct [where P = ?P, OF _ assms])
    fix poll' getOp k operation lg y
    assume IH: "\<And>g k operation lg y. poll' g k operation lg = Some y \<Longrightarrow> ?P g k operation lg y"
      and eq: "(if \<not> op_done operation
                then case getOp k of
                       Inl e \<Rightarrow> Some (Inl e, Suc k, lg @ [Delay 5000, GetVideosOperation operation])
                     | Inr operation' \<Rightarrow>
                         poll' getOp (Suc k) operation'
                           (lg @ [Delay 5000, GetVideosOperation operation])
                else Some (Inr operation, k, lg)) = Some y"
    show "?P getOp k operation lg y"
    proof (cases "op_done operation")
      case True
      with eq show ?thesis by auto
    next
      case False
      show ?thesis
      proof (cases "getOp k")
        case (Inl e)
        with False eq show ?thesis by auto
      next
        case (Inr operation')
        with False eq IH [of getOp "Suc k" operation'
                             "lg @ [Delay 5000, GetVideosOperation operation]" y]
        show ?thesis by simp
      qed
    qed
  qed
  then show ?thesis by simp
qed

lemma creation_requests_authenticate [simp]: "creation_requests (snd (authenticate env)) = []"
  by (simp add: authenticate_def split: option.splits sum.splits)

lemma creation_requests_catch_block [simp]:
  "creation_requests (snd (catch_block env e (prev, lg))) = creation_requests lg"
  by (simp add: catch_block_def Let_def split: option.splits sum.splits)

lemma creation_requests_await:
  assumes "await_completion env f p ar = Some (r, lg)"
  shows "creation_requests lg = creation_requests (snd (submit env f p ar))"
  using assms
  by (auto simp: await_completion_def split: prod.splits sum.splits option.splits
           dest: poll_creation_requests)

text \<open>The creation requests of a completed run are those of its submission, if it got
  that far.\<close>

lemma creation_requests_handleGenerate:
  assumes "handleGenerate env (Some f) p ar vs = Some (vs', lg)"
  shows "creation_requests lg = [] \<or>
         creation_requests lg = creation_requests (snd (submit env f p ar))"
proof -
  obtain r la where auth: "authenticate env = (r, la)" by (cases "authenticate env")
  have la: "creation_requests la = []"
    using creation_requests_authenticate [of env] auth by simp
  show ?thesis
  proof (cases r)
    case (Inl e)
    with assms auth have "(vs', lg) = catch_block env e (start_state, [SetVideoState start_state] @ la)"
      by (simp add: handleGenerate_def try_block_def Let_def)
    then have "lg = snd (catch_block env e (start_state, [SetVideoState start_state] @ la))"
      by (metis snd_conv)
    then show ?thesis using la by simp
  next
    case (Inr u)
    let ?lg2 = "[SetVideoState start_state] @ la @ [SetVideoState (uploading start_state)]"
    from assms auth Inr obtain res lg1 where
      g: "generateVeoVideo env f p ar = Some (res, lg1)"
      by (auto simp: handleGenerate_def try_block_def Let_def split: option.splits)
    then obtain res' where a: "await_completion env f p ar = Some (res', lg1)"
      by (auto simp: generateVeoVideo_def split: option.splits sum.splits)
    have "creation_requests lg = creation_requests lg1"
    proof (cases res)
      case (Inl e)
      with assms auth \<open>r = Inr u\<close> g have
        "(vs', lg) = catch_block env e (uploading start_state, ?lg2 @ lg1)"
        by (simp add: handleGenerate_def try_block_def Let_def)
      then have "lg = snd (catch_block env e (uploading start_state, ?lg2 @ lg1))"
        by (metis snd_conv)
      then show ?thesis using la by simp
    next
      case (Inr url)
      with assms auth \<open>r = Inr u\<close> g have "lg = ?lg2 @ lg1 @ [SetVideoState (done_state url)]"
        by (auto simp: handleGenerate_def try_block_def Let_def)
      then show ?thesis using la by simp
    qed
    with creation_requests_await [OF a] show ?thesis by simp
  qed
qed


section \<open>The transition system\<close>

lemma workflow_inv_initial: "workflow_inv (initial_App, 0)"
  by (simp add: workflow_inv_def initial_App_def initial_state_def)

lemma workflow_inv_step:
  assumes "step c c'" and "workflow_inv c"
  shows "workflow_inv c'"
  using assms
  by (induction rule: step.induct)
     (auto simp: workflow_inv_def generate_enabled_def start_state_def uploading_def
                 done_state_def failed_def dismiss_def click_dismiss_def split: if_splits)

lemma reachable_inv: "reachable c \<Longrightarrow> workflow_inv c"
  by (induction rule: reachable.induct) (auto intro: workflow_inv_initial workflow_inv_step)

text \<open>
  The transition system covers \<open>handleGenerate\<close>: from a reachable configuration in which
  the button is enabled, the state a completed run leaves is reachable, through the
  run's own updates.
\<close>

lemma handleGenerate_reachable:
  assumes "reachable (app, n)" and "generate_enabled app"
      and "handleGenerate env (app_file app) (prompt app) (aspectRatio app) (videoState app)
             = Some (vs', lg)"
  shows "reachable (app\<lparr>videoState := vs'\<rparr>, n)"
proof -
  from assms(2) obtain f where f: "app_file app = Some f"
    by (auto simp: generate_enabled_def)
  have s1: "reachable (app\<lparr>videoState := start_state\<rparr>, Suc n)"
    using assms(1) run_start [OF assms(2)] by (rule after_step)
  have s2: "reachable (app\<lparr>videoState := uploading start_state\<rparr>, Suc n)"
    using after_step [OF s1 run_progress] by simp
  have fail1: "\<And>msg. reachable (app\<lparr>videoState := failed msg start_state\<rparr>, n)"
    using after_step [OF s1 run_failure] by simp
  have fail2: "\<And>msg. reachable (app\<lparr>videoState := failed msg (uploading start_state)\<rparr>, n)"
    using after_step [OF s2 run_failure] by simp
  have ok: "\<And>url. reachable (app\<lparr>videoState := done_state url\<rparr>, n)"
    using after_step [OF s2 run_success] by simp
  from assms(3) f obtain r where r: "try_block env f (prompt app) (aspectRatio app) = Some r"
    by (auto simp: handleGenerate_def split: option.splits)
  obtain res s l where rs: "r = (res, s, l)" by (cases r)
  show ?thesis
  proof (cases res)
    case (Inl e)
    with r rs have "s = start_state \<or> s = uploading start_state"
      by (auto simp: try_block_def Let_def split: prod.splits sum.splits option.splits)
    moreover from assms(3) f r rs Inl have "(vs', lg) = catch_block env e (s, l)"
      by (simp add: handleGenerate_def)
    ultimately show ?thesis
      using catch_block_failed [of env e s l] fail1 fail2 by auto
  next
    case (Inr u)
    with r rs have "\<exists>url. s = done_state url"
      by (auto simp: try_block_def Let_def split: prod.splits sum.splits option.splits)
    moreover from assms(3) f r rs Inr have "vs' = s"
      by (simp add: handleGenerate_def)
    ultimately show ?thesis using ok by auto
  qed
qed

lemma example_failed_reachable: "reachable (example_failed_App, 0)"
proof -
  have "reachable (initial_App\<lparr>app_file := Some example_file\<rparr>, 0)"
    by (rule after_step [OF initial select_file])
  then have "reachable (initial_App\<lparr>app_file := Some example_file, prompt := ''pan left''\<rparr>, 0)"
    by (rule after_step) (rule edit_prompt)
  then have "reachable (initial_App\<lparr>app_file := Some example_file, prompt := ''pan left'',
                                     videoState := start_state\<rparr>, Suc 0)"
    by (rule after_step)
       (rule run_start, simp add: generate_enabled_def initial_App_def initial_state_def)
  then have "reachable (initial_App\<lparr>app_file := Some example_file, prompt := ''pan left'',
                                     videoState := start_state\<rparr>
                          \<lparr>videoState := uploading start_state\<rparr>, Suc 0)"
    using run_progress [of "initial_App\<lparr>app_file := Some example_file, prompt := ''pan left'',
                                     videoState := start_state\<rparr>" 0]
    by (simp add: after_step)
  then have "reachable (initial_App\<lparr>app_file := Some example_file, prompt := ''pan left'',
                                     videoState := start_state\<rparr>
                          \<lparr>videoState := uploading start_state\<rparr>
                          \<lparr>videoState := failed ''Video generation failed: Unknown error''
                                             (uploading start_state)\<rparr>, 0)"
    using run_failure [of "initial_App\<lparr>app_file := Some example_file, prompt := ''pan left'',
                                     videoState := start_state\<rparr>
                          \<lparr>videoState := uploading start_state\<rparr>" 0
                          "''Video generation failed: Unknown error''"]
    by (simp add: after_step)
  then show ?thesis by (simp add: example_failed_App_def initial_App_def)
qed

section \<open>The claims\<close>

text \<open>
  Claim C1. In every configuration the component can reach by its transitions (the first
  update of a run, the progress update, the success update, any failure update, the
  dismissal), exactly one of the four conditions holds of the workflow state: busy,
  has-result, has-error, or idle.
\<close>

theorem exactly_one_condition:
  assumes "reachable (app, n)"
  shows "exactly_one (videoState app)"
  using reachable_inv [OF assms]
  by (auto simp: workflow_inv_def exactly_one_def busy_def has_result_def has_error_def
                 idle_def split: if_splits)

theorem exactly_one_condition_witness:
  "reachable (example_failed_App, 0) \<and> exactly_one (videoState example_failed_App) \<and>
   has_error (videoState example_failed_App)"
  using exactly_one_condition [OF example_failed_reachable] example_failed_reachable
  by (simp add: example_failed_App_def has_error_def failed_def)

text \<open>
  Claim C2. Whatever handles the service returns: a run that ends with a result has
  received, as its latest handle, one that is done, and has asked for the status exactly
  once per handle after the first, none of the earlier handles being done; and when the
  \<open>n\<close>-th handle is the first that is done, the loop returns it after exactly \<open>n\<close> status
  requests and the run ends with no further request.
\<close>

theorem poll_stops_at_first_done:
  "(handleGenerate env (Some f) p ar vs = Some (vs', lg) \<and> videoUrl vs' \<noteq> None \<longrightarrow>
      (\<exists>imagePart h.
         fileToGenerativePart env f = Inr imagePart \<and>
         handle_seq env (creation_request imagePart p ar) (status_requests lg) = Inr h \<and>
         op_done h \<and>
         (\<forall>i<status_requests lg.
            \<exists>h'. handle_seq env (creation_request imagePart p ar) i = Inr h' \<and> \<not> op_done h')))
   \<and>
   (fst (authenticate env) = Inr () \<and>
    fileToGenerativePart env f = Inr part \<and>
    handle_seq env (creation_request part p ar) n = Inr hn \<and> op_done hn \<and>
    (\<forall>i<n. \<exists>h'. handle_seq env (creation_request part p ar) i = Inr h' \<and> \<not> op_done h') \<longrightarrow>
      (\<exists>lg1. await_completion env f p ar = Some (Inr hn, lg1) \<and> status_requests lg1 = n) \<and>
      (\<exists>vs2 lg2. handleGenerate env (Some f) p ar vs = Some (vs2, lg2) \<and>
                 \<not> isLoading vs2 \<and> status_requests lg2 = n))"
proof (intro conjI impI)
  assume a: "handleGenerate env (Some f) p ar vs = Some (vs', lg) \<and> videoUrl vs' \<noteq> None"
  with handleGenerate_success [of env f p ar vs vs' lg] obtain operation lg1 where
    "await_completion env f p ar = Some (Inr operation, lg1)"
    "status_requests lg = status_requests lg1"
    by auto
  with await_completion_handles [of env f p ar operation lg1]
  show "\<exists>imagePart h.
         fileToGenerativePart env f = Inr imagePart \<and>
         handle_seq env (creation_request imagePart p ar) (status_requests lg) = Inr h \<and>
         op_done h \<and>
         (\<forall>i<status_requests lg.
            \<exists>h'. handle_seq env (creation_request imagePart p ar) i = Inr h' \<and> \<not> op_done h')"
    by auto
next
  assume b: "fst (authenticate env) = Inr () \<and>
    fileToGenerativePart env f = Inr part \<and>
    handle_seq env (creation_request part p ar) n = Inr hn \<and> op_done hn \<and>
    (\<forall>i<n. \<exists>h'. handle_seq env (creation_request part p ar) i = Inr h' \<and> \<not> op_done h')"
  with await_completion_first_done [of env f part p ar n hn]
  show c: "\<exists>lg1. await_completion env f p ar = Some (Inr hn, lg1) \<and> status_requests lg1 = n"
    by blast
  then obtain lg1 where lg1: "await_completion env f p ar = Some (Inr hn, lg1)"
    "status_requests lg1 = n" by blast
  from b have auth: "fst (authenticate env) = Inr ()" by simp
  show "\<exists>vs2 lg2. handleGenerate env (Some f) p ar vs = Some (vs2, lg2) \<and>
                 \<not> isLoading vs2 \<and> status_requests lg2 = n"
  proof (cases "resolve_operation env hn")
    case (Inl e)
    let ?run = "catch_block env e (uploading start_state,
        [SetVideoState start_state] @ snd (authenticate env) @
        [SetVideoState (uploading start_state)] @ lg1)"
    have "handleGenerate env (Some f) p ar vs = Some (fst ?run, snd ?run)"
      unfolding handleGenerate_resolved [OF auth lg1(1)] Let_def Inl by simp
    moreover have "\<not> isLoading (fst ?run)" by simp
    moreover have "status_requests (snd ?run) = n" using lg1(2) by simp
    ultimately show ?thesis by blast
  next
    case (Inr url)
    have "handleGenerate env (Some f) p ar vs =
            Some (done_state url, ([SetVideoState start_state] @ snd (authenticate env) @
                    [SetVideoState (uploading start_state)] @ lg1) @ [SetVideoState (done_state url)])"
      unfolding handleGenerate_resolved [OF auth lg1(1)] Let_def Inr by simp
    moreover have "\<not> isLoading (done_state url)" by (simp add: done_state_def)
    moreover have "status_requests (([SetVideoState start_state] @ snd (authenticate env) @
                    [SetVideoState (uploading start_state)] @ lg1) @ [SetVideoState (done_state url)]) = n"
      using lg1(2) by simp
    ultimately show ?thesis by blast
  qed
qed

text \<open>
  The example of the specification: the creation request and the first status request
  are answered by handles that are not done, the second status request by one that is.
\<close>

theorem poll_stops_at_first_done_witness:
  "fst (authenticate (example_env pending_handle)) = Inr () \<and>
   fileToGenerativePart (example_env pending_handle) example_file
     = Inr \<lparr>imageBytes = Some ''QUJD'', mimeType = ''image/jpeg''\<rparr> \<and>
   handle_seq (example_env pending_handle)
     (creation_request \<lparr>imageBytes = Some ''QUJD'', mimeType = ''image/jpeg''\<rparr> [] LANDSCAPE) 0
     = Inr pending_handle \<and>
   handle_seq (example_env pending_handle)
     (creation_request \<lparr>imageBytes = Some ''QUJD'', mimeType = ''image/jpeg''\<rparr> [] LANDSCAPE) 1
     = Inr pending_handle \<and>
   handle_seq (example_env pending_handle)
     (creation_request \<lparr>imageBytes = Some ''QUJD'', mimeType = ''image/jpeg''\<rparr> [] LANDSCAPE) 2
     = Inr (finished_handle (Some ''https://x/video1'')) \<and>
   \<not> op_done pending_handle \<and> op_done (finished_handle (Some ''https://x/video1'')) \<and>
   (\<exists>lg1. await_completion (example_env pending_handle) example_file [] LANDSCAPE
            = Some (Inr (finished_handle (Some ''https://x/video1'')), lg1) \<and>
          status_requests lg1 = 2) \<and>
   (\<exists>vs2 lg2. handleGenerate (example_env pending_handle) (Some example_file) [] LANDSCAPE
                initial_state = Some (vs2, lg2) \<and>
              \<not> isLoading vs2 \<and> status_requests lg2 = 2)"
proof -
  let ?E = "example_env pending_handle"
  let ?part = "\<lparr>imageBytes = Some ''QUJD'', mimeType = ''image/jpeg''\<rparr>"
  let ?req = "creation_request ?part [] LANDSCAPE"
  let ?fin = "finished_handle (Some ''https://x/video1'')"
  have a: "fst (authenticate ?E) = Inr ()"
    by (simp add: authenticate_def example_env_def)
  have b: "fileToGenerativePart ?E example_file = Inr ?part"
    by (simp add: fileToGenerativePart_def split_comma_1_def example_defs)
  have h0: "handle_seq ?E ?req 0 = Inr pending_handle"
    and h1: "handle_seq ?E ?req 1 = Inr pending_handle"
    and h2: "handle_seq ?E ?req 2 = Inr ?fin"
    by (simp_all add: handle_seq_def example_env_def numeral_2_eq_2)
  have nd: "\<not> op_done pending_handle" and d: "op_done ?fin"
    by (simp_all add: pending_handle_def finished_handle_def)
  have before: "\<forall>i<2. \<exists>h'. handle_seq ?E ?req i = Inr h' \<and> \<not> op_done h'"
  proof (intro allI impI)
    fix i :: nat assume "i < 2"
    then have "i = 0 \<or> i = 1" by auto
    then show "\<exists>h'. handle_seq ?E ?req i = Inr h' \<and> \<not> op_done h'"
      using h0 h1 nd by auto
  qed
  from poll_stops_at_first_done [of ?E example_file "[]" LANDSCAPE initial_state _ _ ?part 2 ?fin]
       a b h2 d before
  have "(\<exists>lg1. await_completion ?E example_file [] LANDSCAPE = Some (Inr ?fin, lg1) \<and>
               status_requests lg1 = 2) \<and>
        (\<exists>vs2 lg2. handleGenerate ?E (Some example_file) [] LANDSCAPE initial_state
                     = Some (vs2, lg2) \<and> \<not> isLoading vs2 \<and> status_requests lg2 = 2)"
    by blast
  with a b h0 h1 h2 nd d show ?thesis by blast
qed

text \<open>
  Claim C3. When the image was read, the submission sends exactly one creation request,
  and its prompt is the fixed text "Animate this image cinematically" for the empty prompt
  and the caller's prompt, unmodified, for every other; and every creation request in the
  effect log of a completed run carries that prompt.
\<close>

theorem creation_request_prompt:
  "(fileToGenerativePart env f = Inr imagePart \<longrightarrow>
      creation_requests (snd (submit env f p ar)) = [creation_request imagePart p ar] \<and>
      req_prompt (creation_request imagePart p ar) =
        (if p = [] then ''Animate this image cinematically'' else p))
   \<and>
   (handleGenerate env (Some f) p ar vs = Some (vs', lg) \<and> req \<in> set (creation_requests lg) \<longrightarrow>
      req_prompt req = (if p = [] then ''Animate this image cinematically'' else p))"
proof (intro conjI impI)
  assume "fileToGenerativePart env f = Inr imagePart"
  then show "creation_requests (snd (submit env f p ar)) = [creation_request imagePart p ar]"
    by (simp add: submit_def Let_def)
  show "req_prompt (creation_request imagePart p ar) =
          (if p = [] then ''Animate this image cinematically'' else p)"
    by (simp add: creation_request_def or_default_def)
next
  assume a: "handleGenerate env (Some f) p ar vs = Some (vs', lg) \<and> req \<in> set (creation_requests lg)"
  with creation_requests_handleGenerate [of env f p ar vs vs' lg]
  have "req \<in> set (creation_requests (snd (submit env f p ar)))" by auto
  then show "req_prompt req = (if p = [] then ''Animate this image cinematically'' else p)"
    by (auto simp: submit_def Let_def creation_request_def or_default_def split: sum.splits)
qed

theorem creation_request_prompt_witness:
  "fileToGenerativePart (example_env pending_handle) example_file
     = Inr \<lparr>imageBytes = Some ''QUJD'', mimeType = ''image/jpeg''\<rparr> \<and>
   map req_prompt
     (creation_requests (snd (submit (example_env pending_handle) example_file [] LANDSCAPE)))
     = [''Animate this image cinematically''] \<and>
   map req_prompt
     (creation_requests (snd (submit (example_env pending_handle) example_file ''pan left'' LANDSCAPE)))
     = [''pan left''] \<and>
   map_option (map req_prompt \<circ> creation_requests \<circ> snd)
     (handleGenerate (example_env pending_handle) (Some example_file) ''pan left'' PORTRAIT
        initial_state)
     = Some [''pan left'']"
proof -
  let ?E = "example_env pending_handle"
  let ?part = "\<lparr>imageBytes = Some ''QUJD'', mimeType = ''image/jpeg''\<rparr>"
  have p: "fileToGenerativePart ?E example_file = Inr ?part"
    by (simp add: fileToGenerativePart_def split_comma_1_def example_defs)
  have "\<exists>vs' lg. handleGenerate ?E (Some example_file) ''pan left'' PORTRAIT initial_state
                   = Some (vs', lg) \<and>
                 creation_requests lg = [creation_request ?part ''pan left'' PORTRAIT]"
    by (simp add: model_defs example_defs poll_done poll_step Let_def)
  then obtain vs' lg where
    run: "handleGenerate ?E (Some example_file) ''pan left'' PORTRAIT initial_state = Some (vs', lg)"
    and reqs: "creation_requests lg = [creation_request ?part ''pan left'' PORTRAIT]"
    by blast
  from reqs have mem: "creation_request ?part ''pan left'' PORTRAIT \<in> set (creation_requests lg)"
    by simp
  from creation_request_prompt
         [of ?E example_file ?part "''pan left''" PORTRAIT initial_state vs' lg
             "creation_request ?part ''pan left'' PORTRAIT"] p run mem
  have "req_prompt (creation_request ?part ''pan left'' PORTRAIT) = ''pan left''"
    and "creation_requests (snd (submit ?E example_file ''pan left'' PORTRAIT))
           = [creation_request ?part ''pan left'' PORTRAIT]"
    by simp_all
  moreover
  from creation_request_prompt [of ?E example_file ?part "[]" LANDSCAPE] p
  have "creation_requests (snd (submit ?E example_file [] LANDSCAPE))
          = [creation_request ?part [] LANDSCAPE]"
    and "req_prompt (creation_request ?part [] LANDSCAPE) = ''Animate this image cinematically''"
    by simp_all
  moreover
  from creation_request_prompt [of ?E example_file ?part "''pan left''" LANDSCAPE] p
  have "creation_requests (snd (submit ?E example_file ''pan left'' LANDSCAPE))
          = [creation_request ?part ''pan left'' LANDSCAPE]"
    and "req_prompt (creation_request ?part ''pan left'' LANDSCAPE) = ''pan left''"
    by simp_all
  ultimately show ?thesis using p run reqs by simp
qed

text \<open>
  Claim C4, as stated, fails: a run whose final handle is done and carries the error
  message "Requested entity was not found" ends with the fixed credential text as its
  error, which does not contain the remote message.
\<close>

theorem remote_error_overridden_counterexample:
  "fst (authenticate (example_env (failed_handle (Some ''Requested entity was not found'')))) = Inr () \<and>
   map_option fst
     (await_completion (example_env (failed_handle (Some ''Requested entity was not found'')))
        example_file [] LANDSCAPE)
     = Some (Inr (failed_handle (Some ''Requested entity was not found''))) \<and>
   op_done (failed_handle (Some ''Requested entity was not found'')) \<and>
   op_error (failed_handle (Some ''Requested entity was not found''))
     = Some \<lparr>err_message = Some ''Requested entity was not found''\<rparr> \<and>
   map_option (error \<circ> fst)
     (handleGenerate (example_env (failed_handle (Some ''Requested entity was not found'')))
        (Some example_file) [] LANDSCAPE initial_state)
     = Some (Some ''API Key session invalid. Please try generating again to select a new key.'') \<and>
   \<not> str_includes ''API Key session invalid. Please try generating again to select a new key.''
        ''Requested entity was not found''"
  by (simp add: model_defs example_defs poll_done Let_def)

text \<open>
  Claim C4, amended. A run that passed the credential check and whose final handle is
  done and carries an error payload ends failed (not loading, no result, an error set).
  The error is "Video generation failed: " followed by the remote message, or by
  "Unknown error" when the payload has no message or an empty one; unless that text
  contains "Requested entity was not found", in which case the error is the fixed text
  "API Key session invalid. Please try generating again to select a new key.".
\<close>

theorem remote_error_surfaced:
  assumes "fst (authenticate env) = Inr ()"
      and "await_completion env f p ar = Some (Inr operation, lg)"
      and "op_error operation = Some err"
  shows "op_done operation \<and>
         (\<exists>lg'. handleGenerate env (Some f) p ar vs =
                  Some (\<lparr>isLoading = False,
                         progressMessage = ''Uploading image & starting generation...'',
                         videoUrl = None,
                         error = Some
                           (if str_includes
                                 (''Video generation failed: '' @
                                  opt_or_default (err_message err) ''Unknown error'')
                                 ''Requested entity was not found''
                            then ''API Key session invalid. Please try generating again to select a new key.''
                            else ''Video generation failed: '' @
                                 opt_or_default (err_message err) ''Unknown error'')\<rparr>, lg'))"
proof -
  define m where
    "m = ''Video generation failed: '' @ opt_or_default (err_message err) ''Unknown error''"
  have r: "resolve_operation env operation = Inl (Error m)"
    using assms(3) by (simp add: resolve_operation_def m_def)
  have m: "opt_or_default (Some m) ''An unexpected error occurred'' = m"
    by (simp add: opt_or_default_def or_default_def m_def)
  have "\<exists>lg'. handleGenerate env (Some f) p ar vs =
                  Some (\<lparr>isLoading = False,
                         progressMessage = ''Uploading image & starting generation...'',
                         videoUrl = None,
                         error = Some
                           (if str_includes m ''Requested entity was not found''
                            then ''API Key session invalid. Please try generating again to select a new key.''
                            else m)\<rparr>, lg')"
    unfolding handleGenerate_resolved [OF assms(1,2)] Let_def r
    by (simp add: catch_block_def m failed_def uploading_def start_state_def Let_def
             split: option.splits sum.splits)
  then show ?thesis using await_completion_done [OF assms(2)] unfolding m_def by simp
qed

theorem remote_error_surfaced_witness:
  "fst (authenticate (example_env (failed_handle (Some ''quota exceeded'')))) = Inr () \<and>
   map_option fst
     (await_completion (example_env (failed_handle (Some ''quota exceeded''))) example_file []
        LANDSCAPE)
     = Some (Inr (failed_handle (Some ''quota exceeded''))) \<and>
   op_error (failed_handle (Some ''quota exceeded''))
     = Some \<lparr>err_message = Some ''quota exceeded''\<rparr> \<and>
   map_option fst
     (handleGenerate (example_env (failed_handle (Some ''quota exceeded''))) (Some example_file) []
        LANDSCAPE initial_state)
     = Some \<lparr>isLoading = False,
              progressMessage = ''Uploading image & starting generation...'',
              videoUrl = None,
              error = Some ''Video generation failed: quota exceeded''\<rparr>"
proof -
  let ?h = "failed_handle (Some ''quota exceeded'')"
  let ?E = "example_env ?h"
  have a: "fst (authenticate ?E) = Inr ()"
    by (simp add: authenticate_def example_env_def)
  have "\<exists>lg. await_completion ?E example_file [] LANDSCAPE = Some (Inr ?h, lg)"
    by (simp add: model_defs example_defs poll_done)
  then obtain lg where b: "await_completion ?E example_file [] LANDSCAPE = Some (Inr ?h, lg)" ..
  have c: "op_error ?h = Some \<lparr>err_message = Some ''quota exceeded''\<rparr>"
    by (simp add: failed_handle_def)
  from remote_error_surfaced [OF a b c, of initial_state] a b c
  show ?thesis by (auto simp: opt_or_default_def or_default_def)
qed

text \<open>
  Claim C5. A run that passed the credential check and whose final handle is done, has no
  error payload and no result locator ends failed with the error "No video URI returned
  from the API.", a text of its own that does not begin like the remote-failure error.
\<close>

theorem missing_result_failure:
  assumes "fst (authenticate env) = Inr ()"
      and "await_completion env f p ar = Some (Inr operation, lg)"
      and "op_error operation = None"
      and "\<not> truthy (videoUri operation)"
  shows "op_done operation \<and>
         (\<exists>lg'. handleGenerate env (Some f) p ar vs =
                  Some (\<lparr>isLoading = False,
                         progressMessage = ''Uploading image & starting generation...'',
                         videoUrl = None,
                         error = Some ''No video URI returned from the API.''\<rparr>, lg')) \<and>
         \<not> prefix ''Video generation failed: '' ''No video URI returned from the API.''"
proof -
  have r: "resolve_operation env operation = Inl (Error ''No video URI returned from the API.'')"
    using assms(3,4) by (simp add: resolve_operation_def)
  have "\<exists>lg'. handleGenerate env (Some f) p ar vs =
                  Some (\<lparr>isLoading = False,
                         progressMessage = ''Uploading image & starting generation...'',
                         videoUrl = None,
                         error = Some ''No video URI returned from the API.''\<rparr>, lg')"
    unfolding handleGenerate_resolved [OF assms(1,2)] Let_def r
    by (simp add: catch_block_def opt_or_default_def or_default_def failed_def uploading_def
                  start_state_def Let_def)
  then show ?thesis using await_completion_done [OF assms(2)] by simp
qed

theorem missing_result_failure_witness:
  "fst (authenticate (example_env (finished_handle None))) = Inr () \<and>
   map_option fst (await_completion (example_env (finished_handle None)) example_file [] LANDSCAPE)
     = Some (Inr (finished_handle None)) \<and>
   op_error (finished_handle None) = None \<and>
   \<not> truthy (videoUri (finished_handle None)) \<and>
   map_option fst
     (handleGenerate (example_env (finished_handle None)) (Some example_file) [] LANDSCAPE
        initial_state)
     = Some \<lparr>isLoading = False,
              progressMessage = ''Uploading image & starting generation...'',
              videoUrl = None,
              error = Some ''No video URI returned from the API.''\<rparr>"
proof -
  let ?E = "example_env (finished_handle None)"
  have a: "fst (authenticate ?E) = Inr ()"
    by (simp add: authenticate_def example_env_def)
  have "\<exists>lg. await_completion ?E example_file [] LANDSCAPE = Some (Inr (finished_handle None), lg)"
    by (simp add: model_defs example_defs poll_done)
  then obtain lg where b: "await_completion ?E example_file [] LANDSCAPE
                             = Some (Inr (finished_handle None), lg)" ..
  have c: "op_error (finished_handle None) = None" by (simp add: finished_handle_def)
  have d: "\<not> truthy (videoUri (finished_handle None))"
    by (simp add: finished_handle_def videoUri_def truthy_def)
  from missing_result_failure [OF a b c d, of initial_state] a b c d
  show ?thesis by auto
qed

text \<open>
  Claim C6, as stated, fails: where the host provides no credential capability
  (\<open>window.aistudio\<close> is absent), a failure whose message contains "Requested entity was
  not found" sets the fixed error text and the selector is not invoked at all.
\<close>

theorem no_capability_no_reselection_counterexample:
  "aistudio stale_env = None \<and>
   map_option (error \<circ> fst)
     (handleGenerate stale_env (Some example_file) [] LANDSCAPE initial_state)
     = Some (Some ''API Key session invalid. Please try generating again to select a new key.'') \<and>
   map_option (reselections \<circ> snd)
     (handleGenerate stale_env (Some example_file) [] LANDSCAPE initial_state)
     = Some 0"
  by (simp add: model_defs example_defs reselections_def Let_def)

text \<open>
  Claim C6, amended. When the body of a run throws a value whose message contains
  "Requested entity was not found", the run ends with the state it had, no longer loading
  and with the error set to exactly "API Key session invalid. Please try generating again
  to select a new key."; after that update the handler invokes the credential selector
  exactly once if the host provides the capability and not at all if it does not, and
  the outcome of that invocation changes nothing.
\<close>

theorem stale_credential_handling:
  assumes "try_block env f p ar = Some (Inl err, prev, lg)"
      and "str_includes (opt_or_default (message err) ''An unexpected error occurred'')
             ''Requested entity was not found''"
  shows "handleGenerate env (Some f) p ar vs =
           Some (prev\<lparr>isLoading := False,
                      error := Some ''API Key session invalid. Please try generating again to select a new key.''\<rparr>,
                 lg @ [SetVideoState
                         (prev\<lparr>isLoading := False,
                               error := Some ''API Key session invalid. Please try generating again to select a new key.''\<rparr>)]
                    @ (if aistudio env = None then [] else [OpenSelectKey]))"
  using assms
  by (simp add: handleGenerate_def catch_block_def failed_def Let_def
           split: option.splits sum.splits)

text \<open>A host whose selector fails every time: the run still ends as described, with one
  invocation of the selector.\<close>

theorem stale_credential_handling_witness:
  "map_option fst
     (try_block (stale_env\<lparr>aistudio := Some example_studio\<rparr>) example_file [] LANDSCAPE)
     = Some (Inl (Error ''404 Requested entity was not found.'')) \<and>
   str_includes
     (opt_or_default (message (Error ''404 Requested entity was not found.''))
        ''An unexpected error occurred'')
     ''Requested entity was not found'' \<and>
   openSelectKey example_studio 0 = Inl (Thrown None) \<and>
   map_option (error \<circ> fst)
     (handleGenerate (stale_env\<lparr>aistudio := Some example_studio\<rparr>) (Some example_file) []
        LANDSCAPE initial_state)
     = Some (Some ''API Key session invalid. Please try generating again to select a new key.'') \<and>
   map_option (reselections \<circ> snd)
     (handleGenerate (stale_env\<lparr>aistudio := Some example_studio\<rparr>) (Some example_file) []
        LANDSCAPE initial_state)
     = Some 1"
proof -
  let ?E = "stale_env\<lparr>aistudio := Some example_studio\<rparr>"
  let ?err = "Error ''404 Requested entity was not found.''"
  have "\<exists>prev lg. try_block ?E example_file [] LANDSCAPE = Some (Inl ?err, prev, lg) \<and>
                  reselections lg = 0"
    by (simp add: model_defs example_defs reselections_def Let_def)
  then obtain prev lg where
    t: "try_block ?E example_file [] LANDSCAPE = Some (Inl ?err, prev, lg)"
    and z: "reselections lg = 0"
    by blast
  have s: "str_includes (opt_or_default (message ?err) ''An unexpected error occurred'')
             ''Requested entity was not found''"
    by (simp add: opt_or_default_def or_default_def)
  have c: "aistudio ?E \<noteq> None" by simp
  have o: "openSelectKey example_studio 0 = Inl (Thrown None)"
    by (simp add: example_studio_def)
  from stale_credential_handling [OF t s, of initial_state] t s c o z
  show ?thesis by (simp add: reselections_def)
qed

text \<open>
  Claim C7. When a run ends with a result and the final handle carries the locator \<open>u\<close>,
  the result set in the workflow state is \<open>u\<close> followed by "&key=" and the credential
  (given that \<open>process.env.API_KEY\<close> is defined), the error is null, and the result pane
  passes exactly that text to the player and to the download link.
\<close>

theorem success_result_locator:
  assumes "handleGenerate env (Some f) p ar vs = Some (vs', lg')"
      and "videoUrl vs' \<noteq> None"
      and "await_completion env f p ar = Some (Inr operation, lg)"
      and "videoUri operation = Some u"
      and "API_KEY env = Some key"
  shows "videoUrl vs' = Some (u @ ''&key='' @ key) \<and> error vs' = None \<and> \<not> isLoading vs' \<and>
         player_src vs' = Some (u @ ''&key='' @ key) \<and>
         download_href vs' = Some (u @ ''&key='' @ key)"
proof -
  from handleGenerate_success [OF assms(1,2)] assms(3) obtain url where
    url: "resolve_operation env operation = Inr url" "vs' = done_state url"
    by auto
  from url(1) assms(4,5) have "url = u @ ''&key='' @ key"
    by (auto simp: resolve_operation_def template_def split: option.splits if_splits)
  with url(2) show ?thesis
    by (simp add: done_state_def player_src_def download_href_def truthy_def)
qed

theorem success_result_locator_witness:
  "map_option fst
     (handleGenerate (example_env pending_handle) (Some example_file) [] LANDSCAPE initial_state)
     = Some \<lparr>isLoading = False, progressMessage = ''Done!'',
              videoUrl = Some ''https://x/video1&key=SECRET'', error = None\<rparr> \<and>
   map_option fst (await_completion (example_env pending_handle) example_file [] LANDSCAPE)
     = Some (Inr (finished_handle (Some ''https://x/video1''))) \<and>
   videoUri (finished_handle (Some ''https://x/video1'')) = Some ''https://x/video1'' \<and>
   API_KEY (example_env pending_handle) = Some ''SECRET'' \<and>
   player_src \<lparr>isLoading = False, progressMessage = ''Done!'',
               videoUrl = Some ''https://x/video1&key=SECRET'', error = None\<rparr>
     = Some ''https://x/video1&key=SECRET'' \<and>
   download_href \<lparr>isLoading = False, progressMessage = ''Done!'',
                  videoUrl = Some ''https://x/video1&key=SECRET'', error = None\<rparr>
     = Some ''https://x/video1&key=SECRET''"
proof -
  let ?E = "example_env pending_handle"
  let ?fin = "finished_handle (Some ''https://x/video1'')"
  have "\<exists>lg. await_completion ?E example_file [] LANDSCAPE = Some (Inr ?fin, lg)"
    by (simp add: model_defs example_defs poll_done poll_step)
  then obtain lg where b: "await_completion ?E example_file [] LANDSCAPE = Some (Inr ?fin, lg)" ..
  have "\<exists>vs' lg'. handleGenerate ?E (Some example_file) [] LANDSCAPE initial_state = Some (vs', lg')
                    \<and> videoUrl vs' \<noteq> None"
    by (simp add: model_defs example_defs poll_done poll_step Let_def)
  then obtain vs' lg' where
    a: "handleGenerate ?E (Some example_file) [] LANDSCAPE initial_state = Some (vs', lg')"
    and v: "videoUrl vs' \<noteq> None"
    by blast
  have u: "videoUri ?fin = Some ''https://x/video1''"
    by (simp add: videoUri_def finished_handle_def)
  have k: "API_KEY ?E = Some ''SECRET''" by (simp add: example_env_def)
  from success_result_locator [OF a v b u k] have
    r: "videoUrl vs' = Some ''https://x/video1&key=SECRET''" "error vs' = None" "\<not> isLoading vs'"
       "player_src vs' = Some ''https://x/video1&key=SECRET''"
       "download_href vs' = Some ''https://x/video1&key=SECRET''"
    by simp_all
  have p: "progressMessage vs' = ''Done!''"
    using a by (simp add: model_defs example_defs poll_done poll_step Let_def) auto
  have vs': "vs' = \<lparr>isLoading = False, progressMessage = ''Done!'',
                   videoUrl = Some ''https://x/video1&key=SECRET'', error = None\<rparr>"
    using r(1,2,3) p by (cases vs') simp
  show ?thesis using a b u k r(4,5) unfolding vs' by simp
qed

text \<open>
  Claim C8. Whatever the workflow state, \<open>handleGenerate\<close> without a selected file leaves
  the state as it is (an idle state stays idle) and has no effect at all: no state update,
  no credential check, no file read, no request.
\<close>

theorem no_file_no_transition:
  "handleGenerate env None p ar vs = Some (vs, [])"
  by (simp add: handleGenerate_def)

theorem no_file_no_transition_witness:
  "handleGenerate (example_env pending_handle) None ''pan left'' PORTRAIT initial_state
     = Some (initial_state, []) \<and> idle initial_state"
  using no_file_no_transition [of "example_env pending_handle" "''pan left''" PORTRAIT initial_state]
  by (simp add: idle_def busy_def has_result_def has_error_def initial_state_def)

text \<open>
  Claim C9. In every reachable configuration whose workflow state has an error, the
  dismissal leaves an idle workflow state that differs from the old one in the error
  field only, and leaves the selected file, the prompt and the aspect ratio as they were.
\<close>

theorem dismiss_returns_to_idle:
  assumes "reachable (app, n)" and "has_error (videoState app)"
  shows "idle (videoState (click_dismiss app)) \<and>
         videoState (click_dismiss app) = (videoState app)\<lparr>error := None\<rparr> \<and>
         app_file (click_dismiss app) = app_file app \<and>
         prompt (click_dismiss app) = prompt app \<and>
         aspectRatio (click_dismiss app) = aspectRatio app"
  using reachable_inv [OF assms(1)] assms(2)
  by (auto simp: workflow_inv_def click_dismiss_def dismiss_def idle_def busy_def
                 has_result_def has_error_def split: if_splits)

theorem dismiss_returns_to_idle_witness:
  "reachable (example_failed_App, 0) \<and> has_error (videoState example_failed_App) \<and>
   idle (videoState (click_dismiss example_failed_App)) \<and>
   app_file (click_dismiss example_failed_App) = Some example_file \<and>
   prompt (click_dismiss example_failed_App) = ''pan left''"
proof -
  have e: "has_error (videoState example_failed_App)"
    by (simp add: example_failed_App_def has_error_def failed_def)
  from dismiss_returns_to_idle [OF example_failed_reachable e]
  have "idle (videoState (click_dismiss example_failed_App))"
    and "app_file (click_dismiss example_failed_App) = app_file example_failed_App"
    and "prompt (click_dismiss example_failed_App) = prompt example_failed_App"
    by blast+
  moreover have "app_file example_failed_App = Some example_file"
    and "prompt example_failed_App = ''pan left''"
    by (simp_all add: example_failed_App_def)
  ultimately show ?thesis using example_failed_reachable e by simp
qed

text \<open>
  Claim C10. A file that arrives by the file input's change event is passed to
  \<open>onFileSelect\<close> whatever its media type and size; a dropped file is passed on exactly
  when its media type starts with "image/"; neither path looks at the size, so no 10 MB
  limit is enforced.
\<close>

theorem upload_paths:
  "handleFileChange (Some (f # fs)) = [f] \<and>
   snd (handleDrop (Some (f # fs))) = (if prefix ''image/'' (file_type f) then [f] else [])"
  by (simp add: handleFileChange_def handleDrop_def)

theorem upload_paths_witness:
  "handleFileChange (Some [example_pdf]) = [example_pdf] \<and>
   snd (handleDrop (Some [example_pdf])) = [] \<and>
   snd (handleDrop (Some [example_file])) = [example_file] \<and>
   10 * 1024 * 1024 < file_size example_pdf \<and> 10 * 1024 * 1024 < file_size example_file"
  using upload_paths [of example_pdf "[]"] upload_paths [of example_file "[]"]
  by (simp add: example_defs)

end
